theory Spec2Isabelle
  imports Main
begin

section \<open>The host\<close>

text \<open>
  JavaScript strings are modelled as \<^typ>\<open>string\<close>, the bytes of their UTF-8 form.
  \<^verbatim>\<open>String.prototype.toUpperCase\<close> and \<^verbatim>\<open>toLowerCase\<close> are the platform's
  Unicode case mappings; they are not part of the scripts and are taken from the host, as
  is the URL parser.
\<close>

text \<open>
  A parsed URL, as far as the handler touches it: the part fixed by the parser and the
  list behind \<^verbatim>\<open>url.searchParams\<close>.
\<close>

record url =
  url_origin :: string
  url_pathname :: string
  searchParams :: "(string \<times> string) list"
  url_hash :: string

text \<open>
  What the scripts read from their host: \<^verbatim>\<open>window.location.origin\<close>, the URL
  parser behind \<^verbatim>\<open>new URL(page, origin)\<close> (\<open>None\<close> is the TypeError it
  throws on an input it cannot parse), the result of the user-agent test, and the two
  case mappings of strings.
\<close>

record browser =
  location_origin :: string
  newURL :: "string \<Rightarrow> string \<Rightarrow> url option"
  isMac :: bool
  toUpperCase :: "string \<Rightarrow> string"
  toLowerCase :: "string \<Rightarrow> string"

section \<open>The shortcut catalog (short\_key.js)\<close>

text \<open>One element of \<^verbatim>\<open>data.shortcuts\<close> as the endpoint returns it.\<close>

record server_shortcut =
  raw_key :: string
  raw_command :: string
  raw_title :: string
  raw_section :: "string option"
  raw_description :: "string option"
  raw_page :: string

text \<open>One element of \<^verbatim>\<open>window.shortcutKeysCache\<close>.\<close>

record shortcut =
  key :: string
  command :: string
  displayCommand :: string
  displaySymbol :: string
  title :: string
  sk_section :: "string option"
  description :: string
  page :: string

text \<open>The UTF-8 bytes of the option-key symbol U+2325.\<close>

definition optionSymbol :: string where
  "optionSymbol = [CHR 0xE2, CHR 0x8C, CHR 0xA5]"

text \<open>
  The arrow function passed to \<^verbatim>\<open>data.shortcuts.map\<close> in the success callbacks
  of \<^verbatim>\<open>fetchShortcutKeys\<close> and \<^verbatim>\<open>refreshShortcutKeys\<close>;
  the user-agent test and the case mappings come from the host.
\<close>

definition normalizeShortcut :: "browser \<Rightarrow> server_shortcut \<Rightarrow> shortcut" where
  "normalizeShortcut env sk =
     \<lparr> key = toUpperCase env (raw_key sk),
       command = toLowerCase env (raw_command sk),
       displayCommand =
         (if toLowerCase env (raw_command sk) = ''alt'' \<and> isMac env then ''OPTION''
          else toUpperCase env (raw_command sk)),
       displaySymbol =
         (if toLowerCase env (raw_command sk) = ''alt'' \<and> isMac env then optionSymbol
          else toUpperCase env (raw_command sk)),
       title = raw_title sk,
       sk_section = raw_section sk,
       description = (case raw_description sk of None \<Rightarrow> [] | Some d \<Rightarrow> d),
       page = raw_page sk \<rparr>"

definition normalizeShortcuts :: "browser \<Rightarrow> server_shortcut list \<Rightarrow> shortcut list" where
  "normalizeShortcuts env shortcuts = map (normalizeShortcut env) shortcuts"

text \<open>
  The lookup of the keydown handler:
  \<^verbatim>\<open>cache.find(sk => sk.key === pressedKey && sk.command.toLowerCase() === 'alt')\<close>
  with \<^verbatim>\<open>pressedKey = e.key.toUpperCase()\<close>.
\<close>

definition findMatch :: "browser \<Rightarrow> shortcut list \<Rightarrow> string \<Rightarrow> shortcut option" where
  "findMatch env cache pressed =
     (let pressedKey = toUpperCase env pressed
      in find (\<lambda>sk. key sk = pressedKey \<and> toLowerCase env (command sk) = ''alt'') cache)"



section \<open>Browser objects used by short\_key.js\<close>

text \<open>
  \<^verbatim>\<open>URLSearchParams.set(name, value)\<close>: the first pair named \<open>name\<close> takes
  the value and the other pairs of that name go; with no such pair, one is appended.
\<close>

fun searchParams_set :: "string \<Rightarrow> string \<Rightarrow> (string \<times> string) list \<Rightarrow> (string \<times> string) list" where
  "searchParams_set n v [] = [(n, v)]"
| "searchParams_set n v (p # ps) =
     (if fst p = n then (n, v) # filter (\<lambda>q. fst q \<noteq> n) ps
      else p # searchParams_set n v ps)"

text \<open>
  The three callbacks the script hands to \<^verbatim>\<open>setTimeout\<close>: the hold timer of the
  keydown handler, the delayed \<^verbatim>\<open>modal.addClass('hidden')\<close> of
  \<^verbatim>\<open>closeShortcutModal\<close> (with whether the jQuery object it captured holds the
  modal element) and the deferred \<^verbatim>\<open>setupModalObserver\<close>.
\<close>

datatype timer_callback = ShowModal | HideModal bool | SetupObserver

text \<open>A row of \<^verbatim>\<open>#shortcut-content\<close>: modifier label, key, title, description.\<close>

record shortcut_row =
  row_command :: string
  row_key :: string
  row_title :: string
  row_description :: "string option"

text \<open>
  The page as the script sees it.  The first three fields are
  \<^verbatim>\<open>window.shortcutKeysState\<close> (\<open>None\<close> is \<^verbatim>\<open>null\<close>; a timer handle is
  a positive number, so a stored handle is truthy).  \<open>timers\<close> is the browser's queue
  of pending timeouts, \<open>modalInDocument\<close>, \<open>modalHidden\<close> and \<open>observerAttached\<close>
  describe the element \<^verbatim>\<open>#shortcutKeysModal\<close>, its class \<^verbatim>\<open>hidden\<close> and its
  attribute \<^verbatim>\<open>data-observer-attached\<close>; \<open>overlayShows\<close> counts the calls of
  \<^verbatim>\<open>showShortcutModal\<close> and \<open>consoleErrors\<close> those of \<^verbatim>\<open>console.error\<close>.
\<close>

record window =
  modalShown :: bool
  activeModifier :: "string option"
  modifierHoldTimer :: "nat option"
  shortcutKeysCache :: "shortcut list"
  fetchPending :: bool
  handlersAttached :: bool
  timers :: "(nat \<times> timer_callback) list"
  nextTimerId :: nat
  modalInDocument :: bool
  modalHidden :: bool
  observerAttached :: bool
  shortcutContent :: "shortcut_row list"
  overlayShows :: nat
  location_href :: "url option"
  consoleErrors :: nat

definition setTimeout :: "timer_callback \<Rightarrow> window \<Rightarrow> nat \<times> window" where
  "setTimeout cb w =
     (nextTimerId w,
      w\<lparr>timers := timers w @ [(nextTimerId w, cb)], nextTimerId := Suc (nextTimerId w)\<rparr>)"

definition clearTimeout :: "nat \<Rightarrow> window \<Rightarrow> window" where
  "clearTimeout h w = w\<lparr>timers := filter (\<lambda>t. fst t \<noteq> h) (timers w)\<rparr>"

text \<open>The handles of the pending hold timers.\<close>

definition pendingShow :: "window \<Rightarrow> nat list" where
  "pendingShow w = map fst (filter (\<lambda>t. snd t = ShowModal) (timers w))"

text \<open>
  The block that occurs four times in the script:
  \<^verbatim>\<open>if (state.modifierHoldTimer) { clearTimeout(state.modifierHoldTimer); state.modifierHoldTimer = null; }\<close>
\<close>

definition cancelHoldTimer :: "window \<Rightarrow> window" where
  "cancelHoldTimer w =
     (case modifierHoldTimer w of
        None \<Rightarrow> w
      | Some h \<Rightarrow> (clearTimeout h w)\<lparr>modifierHoldTimer := None\<rparr>)"

text \<open>
  \<^verbatim>\<open>closeShortcutModal\<close>.  The exit animation classes of the inner box are
  presentation only and are left out.
\<close>

definition closeShortcutModal :: "window \<Rightarrow> window" where
  "closeShortcutModal w =
     (let w1 = snd (setTimeout (HideModal (modalInDocument w)) w);
          w2 = w1\<lparr>modalShown := False\<rparr>;
          w3 = w2\<lparr>activeModifier := None\<rparr>
      in cancelHoldTimer w3)"

text \<open>The callback of the MutationObserver, for one mutation of the class attribute.\<close>

definition observerCallback :: "window \<Rightarrow> window" where
  "observerCallback w =
     (if modalHidden w
      then cancelHoldTimer (w\<lparr>modalShown := False, activeModifier := None\<rparr>)
      else w)"

text \<open>
  A change of the modal's class attribute: the observer, when attached, is called back
  before the next event is handled.
\<close>

definition classChanged :: "window \<Rightarrow> window" where
  "classChanged w = (if observerAttached w then observerCallback w else w)"

definition setupModalObserver :: "window \<Rightarrow> window" where
  "setupModalObserver w =
     (if modalInDocument w \<and> \<not> observerAttached w then w\<lparr>observerAttached := True\<rparr> else w)"

text \<open>The modal is appended with the class \<^verbatim>\<open>hidden\<close>.\<close>

definition createShortcutModal :: "window \<Rightarrow> window" where
  "createShortcutModal w =
     (if modalInDocument w then setupModalObserver w
      else snd (setTimeout SetupObserver (w\<lparr>modalInDocument := True, modalHidden := True\<rparr>)))"

definition renderRow :: "shortcut \<Rightarrow> shortcut_row" where
  "renderRow sk =
     \<lparr> row_command = displayCommand sk, row_key = key sk, row_title = title sk,
       row_description = (if description sk = [] then None else Some (description sk)) \<rparr>"

definition showShortcutModal :: "shortcut list \<Rightarrow> window \<Rightarrow> window" where
  "showShortcutModal keys w =
     (let w1 = createShortcutModal w;
          w2 = w1\<lparr>modalHidden := False\<rparr>;
          w3 = w2\<lparr>modalShown := True\<rparr>;
          w4 = w3\<lparr>shortcutContent := map renderRow keys, overlayShows := Suc (overlayShows w3)\<rparr>
      in if modalHidden w1 then classChanged w4 else w4)"

text \<open>The callback of the delayed hide: jQuery's \<^verbatim>\<open>addClass\<close> writes the attribute
  only when the class is not there yet.\<close>

definition hideModal :: "bool \<Rightarrow> window \<Rightarrow> window" where
  "hideModal captured w =
     (if captured \<and> \<not> modalHidden w then classChanged (w\<lparr>modalHidden := True\<rparr>) else w)"

section \<open>The key handlers\<close>

record keyboardEvent =
  altKey :: bool
  eventKey :: string

text \<open>
  Lines 197 to 200: the URL the handler assigns to \<^verbatim>\<open>window.location.href\<close>.
  \<^verbatim>\<open>if (match.section)\<close> holds for a section that is neither missing nor the
  empty string.
\<close>

definition navigationUrl :: "browser \<Rightarrow> shortcut \<Rightarrow> url option" where
  "navigationUrl env m =
     (case newURL env (page m) (location_origin env) of
        None \<Rightarrow> None
      | Some u \<Rightarrow>
          Some (case sk_section m of
                  None \<Rightarrow> u
                | Some s \<Rightarrow>
                    if s \<noteq> []
                    then u\<lparr>searchParams := searchParams_set ''section'' s (searchParams u)\<rparr>
                    else u))"

text \<open>
  The keydown handler.  \<open>focused\<close> is whether
  \<^verbatim>\<open>$("input:focus, textarea:focus, select:focus")\<close> is non-empty; the second
  component of the result is whether \<^verbatim>\<open>e.preventDefault()\<close> was called.
\<close>

definition keydownHandler :: "browser \<Rightarrow> keyboardEvent \<Rightarrow> bool \<Rightarrow> window \<Rightarrow> window \<times> bool" where
  "keydownHandler env e focused w =
     (if altKey e \<and> activeModifier w = None then
        (let w1 = w\<lparr>activeModifier := Some ''alt''\<rparr>
         in if focused then (w1, False)
            else if \<not> modalShown w1 \<and> modifierHoldTimer w1 = None then
              (let (h, w2) = setTimeout ShowModal w1
               in (w2\<lparr>modifierHoldTimer := Some h\<rparr>, False))
            else (w1, False))
      else if activeModifier w \<noteq> None \<and> altKey e then
        (let w1 = cancelHoldTimer w
         in case findMatch env (shortcutKeysCache w1) (eventKey e) of
              None \<Rightarrow> (w1, False)
            | Some m \<Rightarrow>
                if focused then (w1, True)
                else (let w2 = closeShortcutModal w1
                      in case navigationUrl env m of
                           None \<Rightarrow> (w2, True)
                         | Some u \<Rightarrow> (w2\<lparr>location_href := Some u\<rparr>, True)))
      else (w, False))"

definition keyupHandler :: "keyboardEvent \<Rightarrow> window \<Rightarrow> window" where
  "keyupHandler e w =
     (if \<not> altKey e \<and> activeModifier w = Some ''alt''
      then cancelHoldTimer (w\<lparr>activeModifier := None\<rparr>)
      else w)"

section \<open>Fetching the catalog\<close>

text \<open>The callback \<^verbatim>\<open>initShortcutKeys\<close> passes to \<^verbatim>\<open>fetchShortcutKeys\<close>.\<close>

definition fetchCallback :: "shortcut list \<Rightarrow> window \<Rightarrow> window" where
  "fetchCallback keys w = w\<lparr>shortcutKeysCache := keys, handlersAttached := True\<rparr>"

definition fetchSuccess :: "browser \<Rightarrow> server_shortcut list \<Rightarrow> window \<Rightarrow> window" where
  "fetchSuccess env shortcuts w =
     (let w1 = w\<lparr>shortcutKeysCache := normalizeShortcuts env shortcuts\<rparr>
      in fetchCallback (shortcutKeysCache w1) w1)"

definition fetchError :: "window \<Rightarrow> window" where
  "fetchError w = fetchCallback [] (w\<lparr>consoleErrors := Suc (consoleErrors w)\<rparr>)"

definition refreshSuccess :: "browser \<Rightarrow> server_shortcut list \<Rightarrow> window \<Rightarrow> window" where
  "refreshSuccess env shortcuts w =
     w\<lparr>shortcutKeysCache := normalizeShortcuts env shortcuts\<rparr>"

definition refreshError :: "window \<Rightarrow> window" where
  "refreshError w = w\<lparr>consoleErrors := Suc (consoleErrors w)\<rparr>"

text \<open>
  The page after \<^verbatim>\<open>initShortcutKeys\<close> has issued its request: the state object as
  the script's first statement builds it, an empty cache, no modal element yet.
\<close>

definition initShortcutKeys :: window where
  "initShortcutKeys =
     \<lparr> modalShown = False, activeModifier = None, modifierHoldTimer = None,
       shortcutKeysCache = [], fetchPending = True, handlersAttached = False,
       timers = [], nextTimerId = 1,
       modalInDocument = False, modalHidden = True, observerAttached = False,
       shortcutContent = [], overlayShows = 0, location_href = None, consoleErrors = 0 \<rparr>"

section \<open>Events\<close>

text \<open>
  What can happen to the page: a key event (with the focus state at that moment), a
  pending timeout firing, a click on the close button, some other script hiding the
  modal, and the answers to the initial request and to a refresh.
\<close>

datatype event =
    KeyDown keyboardEvent bool
  | KeyUp keyboardEvent
  | TimerFires nat
  | CloseButton
  | ExternalHide
  | FetchSucceeds "server_shortcut list"
  | FetchFails
  | RefreshSucceeds "server_shortcut list"
  | RefreshFails

definition runTimer :: "timer_callback \<Rightarrow> window \<Rightarrow> window" where
  "runTimer cb w =
     (case cb of
        ShowModal \<Rightarrow> showShortcutModal (shortcutKeysCache w) w
      | HideModal captured \<Rightarrow> hideModal captured w
      | SetupObserver \<Rightarrow> setupModalObserver w)"

definition step :: "browser \<Rightarrow> event \<Rightarrow> window \<Rightarrow> window" where
  "step env ev w =
     (case ev of
        KeyDown e focused \<Rightarrow> if handlersAttached w then fst (keydownHandler env e focused w) else w
      | KeyUp e \<Rightarrow> if handlersAttached w then keyupHandler e w else w
      | TimerFires h \<Rightarrow>
          (case map_of (timers w) h of
             None \<Rightarrow> w
           | Some cb \<Rightarrow> runTimer cb (w\<lparr>timers := filter (\<lambda>t. fst t \<noteq> h) (timers w)\<rparr>))
      | CloseButton \<Rightarrow> closeShortcutModal w
      | ExternalHide \<Rightarrow> if modalInDocument w then classChanged (w\<lparr>modalHidden := True\<rparr>) else w
      | FetchSucceeds shortcuts \<Rightarrow>
          if fetchPending w then fetchSuccess env shortcuts (w\<lparr>fetchPending := False\<rparr>) else w
      | FetchFails \<Rightarrow> if fetchPending w then fetchError (w\<lparr>fetchPending := False\<rparr>) else w
      | RefreshSucceeds shortcuts \<Rightarrow> refreshSuccess env shortcuts w
      | RefreshFails \<Rightarrow> refreshError w)"

definition run :: "browser \<Rightarrow> event list \<Rightarrow> window \<Rightarrow> window" where
  "run env evs w = foldl (\<lambda>w' ev. step env ev w') w evs"

text \<open>A keydown event that carries the modifier.\<close>

definition modifierDown :: "event \<Rightarrow> bool" where
  "modifierDown ev = (case ev of KeyDown e focused \<Rightarrow> altKey e | _ \<Rightarrow> False)"


text \<open>
  The timer queue and the stored handle agree: the handles in the queue are fresh and
  distinct, and every pending hold timer is the stored one.
\<close>

definition timersOk :: "window \<Rightarrow> bool" where
  "timersOk w \<longleftrightarrow>
     list_all (\<lambda>t. fst t < nextTimerId w) (timers w) \<and>
     distinct (map fst (timers w)) \<and>
     list_all (\<lambda>h. modifierHoldTimer w = Some h) (pendingShow w)"

text \<open>
  What every handler keeps: besides \<open>timersOk\<close>, a stored handle goes with a held
  modifier, and a hold timer is pending only while the modal is not shown.
\<close>

definition consistent :: "window \<Rightarrow> bool" where
  "consistent w \<longleftrightarrow>
     timersOk w \<and>
     (modifierHoldTimer w = None \<or> activeModifier w \<noteq> None) \<and>
     (pendingShow w = [] \<or> \<not> modalShown w)"


text \<open>The section field is present: neither missing nor empty.\<close>

definition sectionPresent :: "shortcut \<Rightarrow> bool" where
  "sectionPresent m = (case sk_section m of None \<Rightarrow> False | Some s \<Rightarrow> s \<noteq> [])"

section \<open>Chart options (horilla\_charts.js)\<close>

definition defaultColors :: "string list" where
  "defaultColors =
     [''#a5b4fc'', ''#fca5a5'', ''#fdba74'', ''#38bdf8'', ''#a7f3d0'',
      ''#c084fc'', ''#fb7185'', ''#60a5fa'', ''#5eead4'', ''#22d3ee'',
      ''#f8b4cb'', ''#b4d8ff'', ''#c7d2fe'', ''#fde68a'',
      ''#d1d5db'', ''#e879f9'', ''#94a3b8'', ''#fcd34d'',
      ''#86efac'', ''#f472b6'', ''#818cf8'', ''#fb923c'',
      ''#a78bfa'', ''#4ade80'', ''#f59e0b'', ''#ec4899'', ''#06b6d4'']"









text \<open>
  The object \<^verbatim>\<open>EChartsConfig\<close>, as far as it changes or is read from the page:
  whether the body carries the class \<^verbatim>\<open>dark\<close>, and \<^verbatim>\<open>_currentUrls\<close>.
\<close>

record echartsConfig =
  darkMode :: bool
  currentUrls :: "string list"

record stackedSeries =
  series_name :: string
  series_data :: "int list"

record stackedData =
  categories :: "string list"
  series :: "stackedSeries list"

record chartConfig =
  chartType :: string
  labels :: "string list"
  chartData :: "int list"
  colors :: "string list option"
  labelField :: string
  stacked :: "stackedData option"
  hasMultipleGroups :: bool
  urls :: "string list option"

definition isDarkMode :: "echartsConfig \<Rightarrow> bool" where
  "isDarkMode this = darkMode this"

definition getTextColor :: "echartsConfig \<Rightarrow> string" where
  "getTextColor this = (if isDarkMode this then ''#e5e7eb'' else ''#374151'')"

record legendConfig =
  orient :: string
  legend_bottom :: "string option"
  legend_left :: string
  legend_top :: "string option"
  itemWidth :: nat
  itemHeight :: nat
  legend_fontSize :: nat
  legend_fontFamily :: string
  legend_color :: string

definition getLegendConfig :: "echartsConfig \<Rightarrow> string \<Rightarrow> legendConfig" where
  "getLegendConfig this position =
     \<lparr> orient = (if position = ''bottom'' then ''horizontal'' else ''vertical''),
       legend_bottom = (if position = ''bottom'' then Some ''0%'' else None),
       legend_left = (if position = ''bottom'' then ''center'' else ''0%''),
       legend_top = (if position = ''left'' then Some ''center'' else None),
       itemWidth = 12,
       itemHeight = 12,
       legend_fontSize = 12,
       legend_fontFamily = [CHR 0x27] @ ''Inter'' @ [CHR 0x27] @ '', sans-serif'',
       legend_color = getTextColor this \<rparr>"

record pieDatum =
  item_name :: string
  item_value :: int
  item_url :: "string option"

text \<open>
  The option object of the pie chart: the fields that depend on the arguments or on
  the page.  The animation settings, the tooltip formatter and the fixed styling of the
  series are the same in every call and are left out.
\<close>

record pieChartOption =
  pie_legend :: legendConfig
  pie_color :: "string list"
  pie_seriesName :: string
  pie_seriesType :: string
  pie_emphasisColor :: string
  pie_data :: "pieDatum list"

text \<open>
  \<^verbatim>\<open>data[index] || 0\<close> and \<^verbatim>\<open>urls && urls[index] ? urls[index] : null\<close>:
  an index past the end reads \<^verbatim>\<open>undefined\<close>.
\<close>

definition pieItem :: "int list \<Rightarrow> string list option \<Rightarrow> nat \<Rightarrow> string \<Rightarrow> pieDatum" where
  "pieItem values us index label =
     \<lparr> item_name = label,
       item_value = (if index < length values then values ! index else 0),
       item_url =
         (case us of
            None \<Rightarrow> None
          | Some l \<Rightarrow> if index < length l \<and> l ! index \<noteq> [] then Some (l ! index) else None) \<rparr>"

definition getPieChartOption ::
  "echartsConfig \<Rightarrow> string list \<Rightarrow> int list \<Rightarrow> string list \<Rightarrow> string \<Rightarrow> string list option \<Rightarrow> pieChartOption" where
  "getPieChartOption this ls values cs field us =
     \<lparr> pie_legend = getLegendConfig this ''bottom'',
       pie_color = cs,
       pie_seriesName = field,
       pie_seriesType = ''pie'',
       pie_emphasisColor = getTextColor this,
       pie_data = map (\<lambda>(index, label). pieItem values us index label) (enumerate 0 ls) \<rparr>"

text \<open>
  What \<^verbatim>\<open>getChartOption\<close> returns.  Only the pie option is spelled out; the
  option object of every other builder is represented by the builder and the arguments
  it was called with.
\<close>

datatype chartOption =
    PieChart pieChartOption
  | DonutChart "string list" "int list" "string list" string "string list option"
  | BarChart "string list" "int list" "string list" string "string list option"
  | ColumnChart "string list" "int list" "string list" string "string list option"
  | LineChart "string list" "int list" "string list" string "string list option"
  | FunnelChart "string list" "int list" "string list" string "string list option"
  | ScatterChart "string list" "int list" "string list" string "string list option"
  | StackedVerticalChart stackedData "string list" string "string list option"
  | StackedHorizontalChart stackedData "string list" string "string list option"

text \<open>
  The guard that opens both stacked builders; the record always has its
  \<open>categories\<close> and \<open>series\<close>, so what is left of it is a missing object or an
  empty series list.
\<close>

definition noStackedData :: "stackedData option \<Rightarrow> bool" where
  "noStackedData sd = (case sd of None \<Rightarrow> True | Some d \<Rightarrow> length (series d) = 0)"

definition getStackedVerticalChartOption ::
  "stackedData option \<Rightarrow> string list \<Rightarrow> string \<Rightarrow> string list option \<Rightarrow> chartOption" where
  "getStackedVerticalChartOption sd cs field us =
     (if noStackedData sd then ColumnChart [''No Data''] [0] cs field None
      else StackedVerticalChart (the sd) cs field us)"

definition getStackedHorizontalChartOption ::
  "stackedData option \<Rightarrow> string list \<Rightarrow> string \<Rightarrow> string list option \<Rightarrow> chartOption" where
  "getStackedHorizontalChartOption sd cs field us =
     (if noStackedData sd then BarChart [''No Data''] [0] cs field None
      else StackedHorizontalChart (the sd) cs field us)"

text \<open>The nine labels of the switch in \<^verbatim>\<open>getChartOption\<close>.\<close>

definition recognizedTypes :: "string list" where
  "recognizedTypes =
     [''pie'', ''donut'', ''bar'', ''column'', ''line'', ''funnel'', ''scatter'',
      ''stacked_vertical'', ''stacked_horizontal'']"

definition chartColors :: "chartConfig \<Rightarrow> string list" where
  "chartColors config =
     (case colors config of
        None \<Rightarrow> defaultColors
      | Some cs \<Rightarrow> if length cs > 0 then cs else defaultColors)"

definition getChartOption ::
  "browser \<Rightarrow> echartsConfig \<Rightarrow> chartConfig \<Rightarrow> chartOption \<times> echartsConfig" where
  "getChartOption env this0 config =
     (let cs = chartColors config;
          this = this0\<lparr>currentUrls := (case urls config of None \<Rightarrow> [] | Some us \<Rightarrow> us)\<rparr>;
          t = toLowerCase env (chartType config);
          ls = labels config; values = chartData config;
          field = labelField config; us = urls config
      in (if t = ''pie'' then PieChart (getPieChartOption this ls values cs field us)
          else if t = ''donut'' then DonutChart ls values cs field us
          else if t = ''bar'' then BarChart ls values cs field us
          else if t = ''column'' then ColumnChart ls values cs field us
          else if t = ''line'' then LineChart ls values cs field us
          else if t = ''funnel'' then FunnelChart ls values cs field us
          else if t = ''scatter'' then ScatterChart ls values cs field us
          else if t = ''stacked_vertical'' then
            (if hasMultipleGroups config
             then getStackedVerticalChartOption (stacked config) cs field us
             else ColumnChart ls values cs field us)
          else if t = ''stacked_horizontal'' then
            (if hasMultipleGroups config
             then getStackedHorizontalChartOption (stacked config) cs field us
             else BarChart ls values cs field us)
          else PieChart (getPieChartOption this ls values cs field us),
          this))"

section \<open>Sample inputs\<close>

text \<open>
  A sample of the platform's case mappings, for concrete inputs: the ASCII letters, the
  dotless i U+0131, which upper-cases to \<open>I\<close>, and the Kelvin sign U+212A, which
  lower-cases to \<open>k\<close>; every other byte is left as it is.
\<close>

definition upperChar :: "char \<Rightarrow> char" where
  "upperChar c =
     (let n = (of_char c :: nat) in if 97 \<le> n \<and> n \<le> 122 then char_of (n - 32) else c)"

definition lowerChar :: "char \<Rightarrow> char" where
  "lowerChar c =
     (let n = (of_char c :: nat) in if 65 \<le> n \<and> n \<le> 90 then char_of (n + 32) else c)"

fun sampleUpperCase :: "string \<Rightarrow> string" where
  "sampleUpperCase (c # d # cs) =
     (if c = CHR 0xC4 \<and> d = CHR 0xB1 then CHR ''I'' # sampleUpperCase cs
      else upperChar c # sampleUpperCase (d # cs))"
| "sampleUpperCase [c] = [upperChar c]"
| "sampleUpperCase [] = []"

fun sampleLowerCase :: "string \<Rightarrow> string" where
  "sampleLowerCase (c # d # e # cs) =
     (if c = CHR 0xE2 \<and> d = CHR 0x84 \<and> e = CHR 0xAA then CHR ''k'' # sampleLowerCase cs
      else lowerChar c # sampleLowerCase (d # e # cs))"
| "sampleLowerCase (c # cs) = lowerChar c # sampleLowerCase cs"
| "sampleLowerCase [] = []"



definition dashboardShortcut :: server_shortcut where
  "dashboardShortcut =
     \<lparr> raw_key = ''d'', raw_command = ''Alt'', raw_title = ''Dashboard'',
       raw_section = None, raw_description = None, raw_page = ''/dashboard'' \<rparr>"

definition leadsShortcut :: server_shortcut where
  "leadsShortcut =
     \<lparr> raw_key = ''l'', raw_command = ''alt'', raw_title = ''Leads'',
       raw_section = Some ''sales'', raw_description = Some ''Open the leads'',
       raw_page = ''/leads'' \<rparr>"

text \<open>A host whose URL parser accepts every page and finds no query in it, with the sample
  case mappings.\<close>

definition sampleBrowser :: browser where
  "sampleBrowser =
     \<lparr> location_origin = ''https://crm.example'',
       newURL = (\<lambda>p origin. Some \<lparr> url_origin = origin, url_pathname = p,
                                     searchParams = [], url_hash = [] \<rparr>),
       isMac = False,
       toUpperCase = sampleUpperCase,
       toLowerCase = sampleLowerCase \<rparr>"

definition altAlone :: keyboardEvent where
  "altAlone = \<lparr> altKey = True, eventKey = ''Alt'' \<rparr>"

definition altD :: keyboardEvent where
  "altD = \<lparr> altKey = True, eventKey = ''d'' \<rparr>"

definition altUp :: keyboardEvent where
  "altUp = \<lparr> altKey = False, eventKey = ''Alt'' \<rparr>"


text \<open>The page while the modifier is held and the hold timer is pending.\<close>

definition heldWindow :: window where
  "heldWindow =
     run sampleBrowser [FetchSucceeds [dashboardShortcut], KeyDown altAlone False] initShortcutKeys"

text \<open>
  The page after the hold timer has fired: the modal has just been created and shown,
  and the timeout that will attach the observer is still pending.
\<close>

definition unobservedWindow :: window where
  "unobservedWindow =
     run sampleBrowser
       [FetchSucceeds [dashboardShortcut], KeyDown altAlone False, TimerFires 1]
       initShortcutKeys"

definition gaugeConfig :: chartConfig where
  "gaugeConfig =
     \<lparr> chartType = ''Gauge'', labels = [''won'', ''lost''], chartData = [3, 1],
       colors = Some [], labelField = ''Stage'', stacked = None,
       hasMultipleGroups = False, urls = None \<rparr>"

section \<open>The lookup\<close>





section \<open>The navigation target\<close>

lemma searchParams_set_once: "filter (\<lambda>q. fst q = n) (searchParams_set n v ps) = [(n, v)]"
  by (induction ps) (auto simp add: filter_empty_conv)

text \<open>
  Claim C8.  When the page of the matched definition parses, the navigation target is
  the parsed page; with a section that is present (non-empty) it carries exactly one query
  parameter \<open>section\<close>, holding that section, and without one the query of the page is
  left as it is.
\<close>

theorem navigation_url_section:
  assumes "newURL env (page m) (location_origin env) = Some u"
  shows "navigationUrl env m =
           Some (if sectionPresent m
                 then u\<lparr>searchParams := searchParams_set ''section'' (the (sk_section m)) (searchParams u)\<rparr>
                 else u)
         \<and> (if sectionPresent m
            then filter (\<lambda>q. fst q = ''section'') (searchParams (the (navigationUrl env m)))
                   = [(''section'', the (sk_section m))]
            else searchParams (the (navigationUrl env m)) = searchParams u)"
  using assms
  by (auto simp add: navigationUrl_def sectionPresent_def searchParams_set_once split: option.splits)

theorem navigation_url_section_witness:
  "newURL sampleBrowser (page (normalizeShortcut sampleBrowser leadsShortcut)) (location_origin sampleBrowser)
     = Some \<lparr> url_origin = ''https://crm.example'', url_pathname = ''/leads'',
              searchParams = [], url_hash = [] \<rparr>
   \<and> navigationUrl sampleBrowser (normalizeShortcut sampleBrowser leadsShortcut)
     = Some \<lparr> url_origin = ''https://crm.example'', url_pathname = ''/leads'',
              searchParams = [(''section'', ''sales'')], url_hash = [] \<rparr>"
proof -
  have h: "newURL sampleBrowser (page (normalizeShortcut sampleBrowser leadsShortcut)) (location_origin sampleBrowser)
     = Some \<lparr> url_origin = ''https://crm.example'', url_pathname = ''/leads'',
              searchParams = [], url_hash = [] \<rparr>"
    by (simp add: sampleBrowser_def normalizeShortcut_def leadsShortcut_def)
  have p: "sectionPresent (normalizeShortcut sampleBrowser leadsShortcut)"
    by (simp add: sectionPresent_def normalizeShortcut_def leadsShortcut_def)
  have s: "sk_section (normalizeShortcut sampleBrowser leadsShortcut) = Some ''sales''"
    by (simp add: normalizeShortcut_def leadsShortcut_def)
  from navigation_url_section [OF h] h show ?thesis
    by (simp add: p s)
qed

section \<open>Generated colours\<close>






section \<open>The default chart\<close>

lemma getPieChartOption_currentUrls:
  "getPieChartOption (this\<lparr>currentUrls := x\<rparr>) ls vs cs f us = getPieChartOption this ls vs cs f us"
  by (simp add: getPieChartOption_def getLegendConfig_def getTextColor_def isDarkMode_def)

text \<open>
  Claim C10.  A chart type that, lowercased, is none of the nine recognised ones gets
  the pie option built from the labels, the data, the resolved colours, the label field
  and the urls of the configuration.
\<close>

theorem getChartOption_default:
  assumes "toLowerCase env (chartType config) \<notin> set recognizedTypes"
  shows "fst (getChartOption env this config) =
           PieChart (getPieChartOption this (labels config) (chartData config)
             (case colors config of None \<Rightarrow> defaultColors
              | Some cs \<Rightarrow> if cs \<noteq> [] then cs else defaultColors)
             (labelField config) (urls config))"
proof -
  define t where "t = toLowerCase env (chartType config)"
  have cs: "chartColors config =
      (case colors config of None \<Rightarrow> defaultColors | Some cs \<Rightarrow> if cs \<noteq> [] then cs else defaultColors)"
    by (simp add: chartColors_def split: option.splits)
  from assms have ne: "t \<noteq> ''pie''" "t \<noteq> ''donut''" "t \<noteq> ''bar''" "t \<noteq> ''column''"
    "t \<noteq> ''line''" "t \<noteq> ''funnel''" "t \<noteq> ''scatter''" "t \<noteq> ''stacked_vertical''"
    "t \<noteq> ''stacked_horizontal''"
    unfolding t_def recognizedTypes_def by (simp_all only: set_simps insert_iff de_Morgan_disj not_False_eq_True)
  have "fst (getChartOption env this config) =
      PieChart (getPieChartOption (this\<lparr>currentUrls := (case urls config of None \<Rightarrow> [] | Some us \<Rightarrow> us)\<rparr>)
         (labels config) (chartData config) (chartColors config) (labelField config) (urls config))"
    unfolding getChartOption_def Let_def t_def [symmetric]
    by (simp only: ne if_False fst_conv)
  then show ?thesis
    by (simp only: getPieChartOption_currentUrls cs)
qed

theorem getChartOption_default_witness:
  "toLowerCase sampleBrowser (chartType gaugeConfig) \<notin> set recognizedTypes
   \<and> fst (getChartOption sampleBrowser \<lparr>darkMode = False, currentUrls = []\<rparr> gaugeConfig)
     = PieChart (getPieChartOption \<lparr>darkMode = False, currentUrls = []\<rparr>
         [''won'', ''lost''] [3, 1] defaultColors ''Stage'' None)"
proof -
  have h: "toLowerCase sampleBrowser (chartType gaugeConfig) \<notin> set recognizedTypes"
    by code_simp
  from getChartOption_default [OF h, of "\<lparr>darkMode = False, currentUrls = []\<rparr>"] h
  show ?thesis by (simp add: gaugeConfig_def)
qed

section \<open>The timer queue and the state object\<close>

lemma list_all_const_False: "list_all (\<lambda>x. False) xs \<Longrightarrow> xs = []"
  by (cases xs) simp_all

lemma show_handles_filter:
  "map fst (filter (\<lambda>t. fst t \<noteq> h \<and> snd t = ShowModal) ts)
     = filter (\<lambda>x. x \<noteq> h) (map fst (filter (\<lambda>t. snd t = ShowModal) ts))"
  by (induction ts) auto

lemma pendingShow_clearTimeout:
  "pendingShow (clearTimeout h w) = filter (\<lambda>x. x \<noteq> h) (pendingShow w)"
  by (simp add: pendingShow_def clearTimeout_def show_handles_filter)

lemma filter_all_same: "list_all (\<lambda>x. x = h) xs \<Longrightarrow> filter (\<lambda>x. x \<noteq> h) xs = []"
  by (induction xs) auto

lemma pendingShow_update [simp]:
  "pendingShow (w\<lparr>modalShown := a\<rparr>) = pendingShow w"
  "pendingShow (w\<lparr>activeModifier := b\<rparr>) = pendingShow w"
  "pendingShow (w\<lparr>modifierHoldTimer := c\<rparr>) = pendingShow w"
  "pendingShow (w\<lparr>shortcutKeysCache := d\<rparr>) = pendingShow w"
  "pendingShow (w\<lparr>fetchPending := e\<rparr>) = pendingShow w"
  "pendingShow (w\<lparr>handlersAttached := f\<rparr>) = pendingShow w"
  "pendingShow (w\<lparr>nextTimerId := g\<rparr>) = pendingShow w"
  "pendingShow (w\<lparr>modalInDocument := i\<rparr>) = pendingShow w"
  "pendingShow (w\<lparr>modalHidden := j\<rparr>) = pendingShow w"
  "pendingShow (w\<lparr>observerAttached := k\<rparr>) = pendingShow w"
  "pendingShow (w\<lparr>shortcutContent := l\<rparr>) = pendingShow w"
  "pendingShow (w\<lparr>overlayShows := m\<rparr>) = pendingShow w"
  "pendingShow (w\<lparr>location_href := n\<rparr>) = pendingShow w"
  "pendingShow (w\<lparr>consoleErrors := p\<rparr>) = pendingShow w"
  by (simp_all add: pendingShow_def)

lemma timersOk_no_handle: "timersOk w \<Longrightarrow> modifierHoldTimer w = None \<Longrightarrow> pendingShow w = []"
  by (simp add: timersOk_def list_all_const_False)

lemma cancelHoldTimer_fields [simp]:
  "modalShown (cancelHoldTimer w) = modalShown w"
  "activeModifier (cancelHoldTimer w) = activeModifier w"
  "modifierHoldTimer (cancelHoldTimer w) = None"
  "shortcutKeysCache (cancelHoldTimer w) = shortcutKeysCache w"
  "handlersAttached (cancelHoldTimer w) = handlersAttached w"
  "nextTimerId (cancelHoldTimer w) = nextTimerId w"
  "modalInDocument (cancelHoldTimer w) = modalInDocument w"
  "modalHidden (cancelHoldTimer w) = modalHidden w"
  "observerAttached (cancelHoldTimer w) = observerAttached w"
  "overlayShows (cancelHoldTimer w) = overlayShows w"
  "location_href (cancelHoldTimer w) = location_href w"
  by (simp_all add: cancelHoldTimer_def clearTimeout_def split: option.splits)

lemma timers_cancelHoldTimer: "set (timers (cancelHoldTimer w)) \<subseteq> set (timers w)"
  by (auto simp add: cancelHoldTimer_def clearTimeout_def split: option.splits)

lemma pendingShow_cancelHoldTimer: "timersOk w \<Longrightarrow> pendingShow (cancelHoldTimer w) = []"
proof (cases "modifierHoldTimer w")
  case None
  assume "timersOk w"
  with None show ?thesis
    by (simp add: cancelHoldTimer_def timersOk_no_handle)
next
  case (Some h)
  assume "timersOk w"
  then have "list_all (\<lambda>x. x = h) (pendingShow w)"
    using Some by (simp add: timersOk_def eq_commute)
  then have "filter (\<lambda>x. x \<noteq> h) (pendingShow w) = []"
    by (rule filter_all_same)
  with Some show ?thesis
    by (simp add: cancelHoldTimer_def pendingShow_clearTimeout)
qed

lemma timersOk_filter:
  assumes "timersOk w"
  shows "timersOk (w\<lparr>timers := filter P (timers w)\<rparr>)"
proof -
  have "map fst (filter (\<lambda>t. snd t = ShowModal) (filter P (timers w)))
        = map fst (filter P (filter (\<lambda>t. snd t = ShowModal) (timers w)))"
    by (simp add: conj_commute)
  then have sub: "set (pendingShow (w\<lparr>timers := filter P (timers w)\<rparr>)) \<subseteq> set (pendingShow w)"
    by (auto simp add: pendingShow_def)
  from assms have "list_all (\<lambda>h. modifierHoldTimer w = Some h) (pendingShow w)"
    by (simp add: timersOk_def)
  with sub have "list_all (\<lambda>h. modifierHoldTimer w = Some h) (pendingShow (w\<lparr>timers := filter P (timers w)\<rparr>))"
    by (auto simp add: list_all_iff)
  with assms show ?thesis
    by (simp add: timersOk_def list_all_iff distinct_map_filter)
qed

lemma timersOk_cancelHoldTimer: "timersOk w \<Longrightarrow> timersOk (cancelHoldTimer w)"
proof (cases "modifierHoldTimer w")
  case None
  assume "timersOk w"
  with None show ?thesis by (simp add: cancelHoldTimer_def)
next
  case (Some h)
  assume ok: "timersOk w"
  have "timersOk ((w\<lparr>timers := filter (\<lambda>t. fst t \<noteq> h) (timers w)\<rparr>)\<lparr>modifierHoldTimer := None\<rparr>)"
    using timersOk_filter [OF ok, of "\<lambda>t. fst t \<noteq> h"] pendingShow_cancelHoldTimer [OF ok] Some
    by (simp add: timersOk_def cancelHoldTimer_def clearTimeout_def)
  with Some show ?thesis by (simp add: cancelHoldTimer_def clearTimeout_def)
qed

lemma consistent_cancelHoldTimer: "timersOk w \<Longrightarrow> consistent (cancelHoldTimer w)"
  by (simp add: consistent_def timersOk_cancelHoldTimer pendingShow_cancelHoldTimer)

lemma timersOk_setTimeout:
  assumes "timersOk w" and "cb \<noteq> ShowModal"
  shows "timersOk (snd (setTimeout cb w))"
proof -
  from assms(1) have fresh: "\<forall>t\<in>set (timers w). fst t < nextTimerId w"
    by (simp add: timersOk_def list_all_iff)
  then have "nextTimerId w \<notin> fst ` set (timers w)"
    by auto
  with assms fresh show ?thesis
    by (auto simp add: timersOk_def setTimeout_def pendingShow_def list_all_iff)
qed

lemma pendingShow_setTimeout:
  "cb \<noteq> ShowModal \<Longrightarrow> pendingShow (snd (setTimeout cb w)) = pendingShow w"
  by (simp add: setTimeout_def pendingShow_def)

lemma setTimeout_fields [simp]:
  "modalShown (snd (setTimeout cb w)) = modalShown w"
  "activeModifier (snd (setTimeout cb w)) = activeModifier w"
  "modifierHoldTimer (snd (setTimeout cb w)) = modifierHoldTimer w"
  "shortcutKeysCache (snd (setTimeout cb w)) = shortcutKeysCache w"
  "handlersAttached (snd (setTimeout cb w)) = handlersAttached w"
  "modalInDocument (snd (setTimeout cb w)) = modalInDocument w"
  "modalHidden (snd (setTimeout cb w)) = modalHidden w"
  "observerAttached (snd (setTimeout cb w)) = observerAttached w"
  "overlayShows (snd (setTimeout cb w)) = overlayShows w"
  "location_href (snd (setTimeout cb w)) = location_href w"
  by (simp_all add: setTimeout_def)

lemma timersOk_update [simp]:
  "timersOk (w\<lparr>modalShown := a\<rparr>) = timersOk w"
  "timersOk (w\<lparr>activeModifier := b\<rparr>) = timersOk w"
  "timersOk (w\<lparr>shortcutKeysCache := d\<rparr>) = timersOk w"
  "timersOk (w\<lparr>fetchPending := e\<rparr>) = timersOk w"
  "timersOk (w\<lparr>handlersAttached := f\<rparr>) = timersOk w"
  "timersOk (w\<lparr>modalInDocument := i\<rparr>) = timersOk w"
  "timersOk (w\<lparr>modalHidden := j\<rparr>) = timersOk w"
  "timersOk (w\<lparr>observerAttached := k\<rparr>) = timersOk w"
  "timersOk (w\<lparr>shortcutContent := l\<rparr>) = timersOk w"
  "timersOk (w\<lparr>overlayShows := m\<rparr>) = timersOk w"
  "timersOk (w\<lparr>location_href := n\<rparr>) = timersOk w"
  "timersOk (w\<lparr>consoleErrors := p\<rparr>) = timersOk w"
  by (simp_all add: timersOk_def)

lemma consistent_update [simp]:
  "consistent (w\<lparr>shortcutKeysCache := d\<rparr>) = consistent w"
  "consistent (w\<lparr>fetchPending := e\<rparr>) = consistent w"
  "consistent (w\<lparr>handlersAttached := f\<rparr>) = consistent w"
  "consistent (w\<lparr>modalInDocument := i\<rparr>) = consistent w"
  "consistent (w\<lparr>modalHidden := j\<rparr>) = consistent w"
  "consistent (w\<lparr>observerAttached := k\<rparr>) = consistent w"
  "consistent (w\<lparr>shortcutContent := l\<rparr>) = consistent w"
  "consistent (w\<lparr>overlayShows := m\<rparr>) = consistent w"
  "consistent (w\<lparr>location_href := n\<rparr>) = consistent w"
  "consistent (w\<lparr>consoleErrors := p\<rparr>) = consistent w"
  by (simp_all add: consistent_def)

lemma consistent_timersOk: "consistent w \<Longrightarrow> timersOk w"
  by (simp add: consistent_def)

lemma closeShortcutModal_fields [simp]:
  "modalShown (closeShortcutModal w) = False"
  "activeModifier (closeShortcutModal w) = None"
  "modifierHoldTimer (closeShortcutModal w) = None"
  "shortcutKeysCache (closeShortcutModal w) = shortcutKeysCache w"
  "handlersAttached (closeShortcutModal w) = handlersAttached w"
  "overlayShows (closeShortcutModal w) = overlayShows w"
  "location_href (closeShortcutModal w) = location_href w"
  by (simp_all add: closeShortcutModal_def Let_def)

lemma consistent_closeShortcutModal: "timersOk w \<Longrightarrow> consistent (closeShortcutModal w)"
  unfolding closeShortcutModal_def Let_def
  by (rule consistent_cancelHoldTimer) (simp add: timersOk_setTimeout)

lemma pendingShow_closeShortcutModal: "timersOk w \<Longrightarrow> pendingShow (closeShortcutModal w) = []"
  unfolding closeShortcutModal_def Let_def
  by (rule pendingShow_cancelHoldTimer) (simp add: timersOk_setTimeout)

lemma consistent_observerCallback: "consistent w \<Longrightarrow> consistent (observerCallback w)"
  by (simp add: observerCallback_def consistent_cancelHoldTimer consistent_timersOk)

lemma pendingShow_observerCallback:
  "timersOk w \<Longrightarrow> pendingShow w = [] \<Longrightarrow> pendingShow (observerCallback w) = []"
  by (simp add: observerCallback_def pendingShow_cancelHoldTimer)

lemma observerCallback_fields [simp]:
  "overlayShows (observerCallback w) = overlayShows w"
  "shortcutKeysCache (observerCallback w) = shortcutKeysCache w"
  "handlersAttached (observerCallback w) = handlersAttached w"
  "location_href (observerCallback w) = location_href w"
  by (simp_all add: observerCallback_def)

lemma consistent_classChanged: "consistent w \<Longrightarrow> consistent (classChanged w)"
  by (simp add: classChanged_def consistent_observerCallback)

lemma pendingShow_classChanged:
  "timersOk w \<Longrightarrow> pendingShow w = [] \<Longrightarrow> pendingShow (classChanged w) = []"
  by (simp add: classChanged_def pendingShow_observerCallback)

lemma classChanged_fields [simp]:
  "overlayShows (classChanged w) = overlayShows w"
  "shortcutKeysCache (classChanged w) = shortcutKeysCache w"
  "handlersAttached (classChanged w) = handlersAttached w"
  "location_href (classChanged w) = location_href w"
  by (simp_all add: classChanged_def)

lemma classChanged_visible: "\<not> modalHidden w \<Longrightarrow> classChanged w = w"
  by (simp add: classChanged_def observerCallback_def)

lemma consistent_setupModalObserver: "consistent (setupModalObserver w) = consistent w"
  by (simp add: setupModalObserver_def)

lemma pendingShow_setupModalObserver: "pendingShow (setupModalObserver w) = pendingShow w"
  by (simp add: setupModalObserver_def)

lemma setupModalObserver_fields [simp]:
  "overlayShows (setupModalObserver w) = overlayShows w"
  "shortcutKeysCache (setupModalObserver w) = shortcutKeysCache w"
  "handlersAttached (setupModalObserver w) = handlersAttached w"
  "location_href (setupModalObserver w) = location_href w"
  "modalShown (setupModalObserver w) = modalShown w"
  "activeModifier (setupModalObserver w) = activeModifier w"
  "modifierHoldTimer (setupModalObserver w) = modifierHoldTimer w"
  by (simp_all add: setupModalObserver_def)

lemma timersOk_setupModalObserver: "timersOk (setupModalObserver w) = timersOk w"
  by (simp add: setupModalObserver_def)

lemma createShortcutModal_fields [simp]:
  "overlayShows (createShortcutModal w) = overlayShows w"
  "shortcutKeysCache (createShortcutModal w) = shortcutKeysCache w"
  "handlersAttached (createShortcutModal w) = handlersAttached w"
  "location_href (createShortcutModal w) = location_href w"
  "modalShown (createShortcutModal w) = modalShown w"
  "activeModifier (createShortcutModal w) = activeModifier w"
  "modifierHoldTimer (createShortcutModal w) = modifierHoldTimer w"
  by (simp_all add: createShortcutModal_def)

lemma timersOk_createShortcutModal: "timersOk w \<Longrightarrow> timersOk (createShortcutModal w)"
  by (simp add: createShortcutModal_def timersOk_setupModalObserver timersOk_setTimeout)

lemma pendingShow_createShortcutModal: "pendingShow (createShortcutModal w) = pendingShow w"
  by (simp add: createShortcutModal_def pendingShow_setupModalObserver pendingShow_setTimeout)

lemma showShortcutModal_eq:
  "showShortcutModal keys w =
     (createShortcutModal w)\<lparr>modalHidden := False, modalShown := True,
        shortcutContent := map renderRow keys,
        overlayShows := Suc (overlayShows w)\<rparr>"
  by (simp add: showShortcutModal_def Let_def classChanged_visible)

lemma showShortcutModal_fields [simp]:
  "overlayShows (showShortcutModal keys w) = Suc (overlayShows w)"
  "modalShown (showShortcutModal keys w) = True"
  "shortcutKeysCache (showShortcutModal keys w) = shortcutKeysCache w"
  "handlersAttached (showShortcutModal keys w) = handlersAttached w"
  "location_href (showShortcutModal keys w) = location_href w"
  "activeModifier (showShortcutModal keys w) = activeModifier w"
  "modifierHoldTimer (showShortcutModal keys w) = modifierHoldTimer w"
  "pendingShow (showShortcutModal keys w) = pendingShow w"
  by (simp_all add: showShortcutModal_eq pendingShow_createShortcutModal)

lemma consistent_showShortcutModal:
  assumes "timersOk w" and "pendingShow w = []"
    and "modifierHoldTimer w = None \<or> activeModifier w \<noteq> None"
  shows "consistent (showShortcutModal keys w)"
  using assms
  by (simp add: consistent_def showShortcutModal_eq timersOk_createShortcutModal
      pendingShow_createShortcutModal)

lemma consistent_hideModal: "consistent w \<Longrightarrow> consistent (hideModal c w)"
  by (simp add: hideModal_def consistent_classChanged)

lemma pendingShow_hideModal:
  "timersOk w \<Longrightarrow> pendingShow w = [] \<Longrightarrow> pendingShow (hideModal c w) = []"
  by (simp add: hideModal_def pendingShow_classChanged)

lemma hideModal_fields [simp]:
  "overlayShows (hideModal c w) = overlayShows w"
  "shortcutKeysCache (hideModal c w) = shortcutKeysCache w"
  "handlersAttached (hideModal c w) = handlersAttached w"
  "location_href (hideModal c w) = location_href w"
  by (simp_all add: hideModal_def)

lemma consistent_filter:
  assumes "consistent w"
  shows "consistent (w\<lparr>timers := filter P (timers w)\<rparr>)"
proof -
  have "pendingShow (w\<lparr>timers := filter P (timers w)\<rparr>)
        = map fst (filter P (filter (\<lambda>t. snd t = ShowModal) (timers w)))"
    by (simp add: pendingShow_def conj_commute)
  then have "pendingShow w = [] \<Longrightarrow> pendingShow (w\<lparr>timers := filter P (timers w)\<rparr>) = []"
    by (simp add: pendingShow_def)
  with assms show ?thesis
    by (auto simp add: consistent_def timersOk_filter)
qed

lemma pendingShow_filter_empty:
  "pendingShow w = [] \<Longrightarrow> pendingShow (w\<lparr>timers := filter P (timers w)\<rparr>) = []"
proof -
  assume "pendingShow w = []"
  then have "filter (\<lambda>t. snd t = ShowModal) (timers w) = []"
    by (simp add: pendingShow_def)
  then have "filter P (filter (\<lambda>t. snd t = ShowModal) (timers w)) = []"
    by simp
  then show ?thesis
    by (simp add: pendingShow_def conj_commute)
qed

lemma pendingShow_after_fire:
  assumes "timersOk w" and "map_of (timers w) h = Some ShowModal"
  shows "pendingShow (w\<lparr>timers := filter (\<lambda>t. fst t \<noteq> h) (timers w)\<rparr>) = []"
proof -
  from assms(2) have "(h, ShowModal) \<in> set (timers w)"
    by (rule map_of_SomeD)
  then have "h \<in> set (pendingShow w)"
    by (force simp add: pendingShow_def)
  with assms(1) have "modifierHoldTimer w = Some h"
    by (simp add: timersOk_def list_all_iff)
  with assms(1) have "list_all (\<lambda>x. x = h) (pendingShow w)"
    by (simp add: timersOk_def eq_commute)
  then have "filter (\<lambda>x. x \<noteq> h) (pendingShow w) = []"
    by (rule filter_all_same)
  then show ?thesis
    using pendingShow_clearTimeout [of h w] by (simp add: clearTimeout_def)
qed

lemma map_of_show_pending:
  "map_of (timers w) h = Some ShowModal \<Longrightarrow> pendingShow w \<noteq> []"
proof -
  assume "map_of (timers w) h = Some ShowModal"
  then have "(h, ShowModal) \<in> set (timers w)"
    by (rule map_of_SomeD)
  then have "h \<in> set (pendingShow w)"
    by (force simp add: pendingShow_def)
  then show ?thesis by auto
qed

lemma consistent_fire:
  assumes "consistent w" and "map_of (timers w) h = Some cb"
  shows "consistent (runTimer cb (w\<lparr>timers := filter (\<lambda>t. fst t \<noteq> h) (timers w)\<rparr>))"
proof (cases cb)
  case ShowModal
  let ?w = "w\<lparr>timers := filter (\<lambda>t. fst t \<noteq> h) (timers w)\<rparr>"
  have "timersOk ?w"
    using assms(1) by (simp add: consistent_timersOk timersOk_filter)
  moreover have "pendingShow ?w = []"
    using assms ShowModal by (simp add: pendingShow_after_fire consistent_timersOk)
  moreover have "modifierHoldTimer ?w = None \<or> activeModifier ?w \<noteq> None"
    using assms(1) by (simp add: consistent_def)
  ultimately show ?thesis
    using ShowModal by (simp add: runTimer_def consistent_showShortcutModal)
next
  case (HideModal c)
  with assms(1) show ?thesis
    by (simp add: runTimer_def consistent_hideModal consistent_filter)
next
  case SetupObserver
  with assms(1) show ?thesis
    by (simp add: runTimer_def consistent_setupModalObserver consistent_filter)
qed

lemma consistent_arm:
  assumes "consistent w" and "activeModifier w = None" and "\<not> modalShown w"
  shows "consistent ((snd (setTimeout ShowModal (w\<lparr>activeModifier := Some ''alt''\<rparr>)))
           \<lparr>modifierHoldTimer := Some (nextTimerId w)\<rparr>)"
    and "pendingShow ((snd (setTimeout ShowModal (w\<lparr>activeModifier := Some ''alt''\<rparr>)))
           \<lparr>modifierHoldTimer := Some (nextTimerId w)\<rparr>) = [nextTimerId w]"
proof -
  from assms have none: "modifierHoldTimer w = None"
    by (simp add: consistent_def)
  with assms(1) have empty: "pendingShow w = []"
    by (simp add: consistent_timersOk timersOk_no_handle)
  from assms(1) have fresh: "\<forall>t\<in>set (timers w). fst t < nextTimerId w"
    by (simp add: consistent_def timersOk_def list_all_iff)
  then have notin: "nextTimerId w \<notin> fst ` set (timers w)"
    by auto
  from assms(1) have dist: "distinct (map fst (timers w))"
    by (simp add: consistent_def timersOk_def)
  from empty have flt: "filter (\<lambda>t. snd t = ShowModal) (timers w) = []"
    by (simp add: pendingShow_def)
  show "pendingShow ((snd (setTimeout ShowModal (w\<lparr>activeModifier := Some ''alt''\<rparr>)))
           \<lparr>modifierHoldTimer := Some (nextTimerId w)\<rparr>) = [nextTimerId w]"
    using flt by (simp add: setTimeout_def pendingShow_def)
  show "consistent ((snd (setTimeout ShowModal (w\<lparr>activeModifier := Some ''alt''\<rparr>)))
           \<lparr>modifierHoldTimer := Some (nextTimerId w)\<rparr>)"
    using flt fresh notin dist assms(3)
    by (auto simp add: consistent_def timersOk_def setTimeout_def pendingShow_def list_all_iff)
qed

lemma consistent_hold:
  "consistent w \<Longrightarrow> activeModifier w = None \<Longrightarrow> consistent (w\<lparr>activeModifier := Some ''alt''\<rparr>)"
  by (simp add: consistent_def)

lemma consistent_keydownHandler:
  assumes "consistent w"
  shows "consistent (fst (keydownHandler env e focused w))"
proof (cases "altKey e \<and> activeModifier w = None")
  case True
  then have none: "activeModifier w = None" by simp
  show ?thesis
  proof (cases "focused \<or> modalShown w")
    case True
    with \<open>altKey e \<and> activeModifier w = None\<close> assms show ?thesis
      by (auto simp add: keydownHandler_def Let_def setTimeout_def consistent_hold)
  next
    case False
    from assms none have "modifierHoldTimer w = None"
      by (simp add: consistent_def)
    with False \<open>altKey e \<and> activeModifier w = None\<close> show ?thesis
      using consistent_arm(1) [OF assms none]
      by (simp add: keydownHandler_def Let_def split_def setTimeout_def)
  qed
next
  case False
  have c1: "consistent (cancelHoldTimer w)"
    using assms by (simp add: consistent_cancelHoldTimer consistent_timersOk)
  have c2: "consistent (closeShortcutModal (cancelHoldTimer w))"
    using c1 by (simp add: consistent_closeShortcutModal consistent_timersOk)
  from False assms c1 c2 show ?thesis
    by (auto simp add: keydownHandler_def Let_def split: option.splits)
qed

lemma consistent_keyupHandler: "consistent w \<Longrightarrow> consistent (keyupHandler e w)"
  by (simp add: keyupHandler_def consistent_cancelHoldTimer consistent_timersOk)

lemma consistent_fetch:
  "consistent (fetchSuccess env sh w) = consistent w"
  "consistent (fetchError w) = consistent w"
  "consistent (refreshSuccess env sh w) = consistent w"
  "consistent (refreshError w) = consistent w"
  by (simp_all add: fetchSuccess_def fetchError_def refreshSuccess_def refreshError_def
      fetchCallback_def Let_def)

lemma consistent_step: "consistent w \<Longrightarrow> consistent (step env ev w)"
  by (cases ev)
     (auto simp add: step_def consistent_keydownHandler consistent_keyupHandler consistent_fire
        consistent_closeShortcutModal consistent_timersOk consistent_classChanged consistent_fetch
        split: option.splits)

lemma run_Nil [simp]: "run env [] w = w"
  by (simp add: run_def)

lemma run_Cons [simp]: "run env (ev # evs) w = run env evs (step env ev w)"
  by (simp add: run_def)

lemma consistent_run: "consistent w \<Longrightarrow> consistent (run env evs w)"
  by (induction evs arbitrary: w) (simp_all add: consistent_step)

lemma consistent_init: "consistent initShortcutKeys"
  by (simp add: consistent_def timersOk_def pendingShow_def initShortcutKeys_def)

lemma consistent_reachable: "consistent (run env evs initShortcutKeys)"
  by (rule consistent_run) (rule consistent_init)

section \<open>Traces\<close>

lemma keyupHandler_fields [simp]:
  "overlayShows (keyupHandler e w) = overlayShows w"
  "shortcutKeysCache (keyupHandler e w) = shortcutKeysCache w"
  "handlersAttached (keyupHandler e w) = handlersAttached w"
  by (simp_all add: keyupHandler_def)

lemma pendingShow_keyupHandler:
  "timersOk w \<Longrightarrow> pendingShow w = [] \<Longrightarrow> pendingShow (keyupHandler e w) = []"
  by (simp add: keyupHandler_def pendingShow_cancelHoldTimer)

lemma keydownHandler_no_modifier: "\<not> altKey e \<Longrightarrow> keydownHandler env e focused w = (w, False)"
  by (simp add: keydownHandler_def)

lemma fetch_fields [simp]:
  "overlayShows (fetchSuccess env sh w) = overlayShows w"
  "overlayShows (fetchError w) = overlayShows w"
  "overlayShows (refreshSuccess env sh w) = overlayShows w"
  "overlayShows (refreshError w) = overlayShows w"
  "pendingShow (fetchSuccess env sh w) = pendingShow w"
  "pendingShow (fetchError w) = pendingShow w"
  "pendingShow (refreshSuccess env sh w) = pendingShow w"
  "pendingShow (refreshError w) = pendingShow w"
  by (simp_all add: fetchSuccess_def fetchError_def refreshSuccess_def refreshError_def
      fetchCallback_def Let_def)

lemma quiet_fire:
  assumes "consistent w" and "pendingShow w = []" and "map_of (timers w) h = Some cb"
  shows "pendingShow (runTimer cb (w\<lparr>timers := filter (\<lambda>t. fst t \<noteq> h) (timers w)\<rparr>)) = []
       \<and> overlayShows (runTimer cb (w\<lparr>timers := filter (\<lambda>t. fst t \<noteq> h) (timers w)\<rparr>)) = overlayShows w"
proof (cases cb)
  case ShowModal
  with assms(2,3) show ?thesis
    using map_of_show_pending [of w h] by simp
next
  case (HideModal c)
  with assms(1,2) show ?thesis
    by (simp add: runTimer_def pendingShow_hideModal pendingShow_filter_empty timersOk_filter
        consistent_timersOk)
next
  case SetupObserver
  with assms(2) show ?thesis
    by (simp add: runTimer_def pendingShow_setupModalObserver pendingShow_filter_empty)
qed

lemma quiet_step:
  assumes "consistent w" and "pendingShow w = []" and "\<not> modifierDown ev"
  shows "pendingShow (step env ev w) = [] \<and> overlayShows (step env ev w) = overlayShows w"
proof (cases ev)
  case (KeyDown e focused)
  with assms show ?thesis
    by (simp add: step_def modifierDown_def keydownHandler_no_modifier)
next
  case (KeyUp e)
  with assms show ?thesis
    by (simp add: step_def pendingShow_keyupHandler consistent_timersOk)
next
  case (TimerFires h)
  with assms show ?thesis
    by (simp add: step_def quiet_fire split: option.splits)
next
  case CloseButton
  with assms show ?thesis
    by (simp add: step_def pendingShow_closeShortcutModal consistent_timersOk)
next
  case ExternalHide
  with assms show ?thesis
    by (simp add: step_def pendingShow_classChanged consistent_timersOk)
next
  case (FetchSucceeds sh)
  with assms show ?thesis by (simp add: step_def)
next
  case FetchFails
  with assms show ?thesis by (simp add: step_def)
next
  case (RefreshSucceeds sh)
  with assms show ?thesis by (simp add: step_def)
next
  case RefreshFails
  with assms show ?thesis by (simp add: step_def)
qed

lemma quiet_run:
  "consistent w \<Longrightarrow> pendingShow w = [] \<Longrightarrow> list_all (\<lambda>ev. \<not> modifierDown ev) evs
   \<Longrightarrow> pendingShow (run env evs w) = [] \<and> overlayShows (run env evs w) = overlayShows w"
proof (induction evs arbitrary: w)
  case Nil
  then show ?case by simp
next
  case (Cons ev evs)
  from Cons.prems have q: "pendingShow (step env ev w) = [] \<and> overlayShows (step env ev w) = overlayShows w"
    by (simp add: quiet_step)
  from Cons.prems have "consistent (step env ev w)"
    by (simp add: consistent_step)
  with Cons.IH [of "step env ev w"] q Cons.prems show ?case
    by simp
qed



lemma singleton_handles:
  "distinct xs \<Longrightarrow> list_all (\<lambda>x. x = h) xs \<Longrightarrow> xs \<noteq> [] \<Longrightarrow> xs = [h]"
proof (cases xs)
  case Nil
  assume "xs \<noteq> []"
  with Nil show ?thesis by simp
next
  case (Cons x ys)
  assume "distinct xs" and "list_all (\<lambda>x. x = h) xs"
  with Cons show ?thesis by (cases ys) auto
qed

lemma distinct_pendingShow: "timersOk w \<Longrightarrow> distinct (pendingShow w)"
  by (simp add: timersOk_def pendingShow_def distinct_map_filter)

text \<open>
  Claim C3, amended.  In every state reachable from the initial one, a stored timer
  handle goes with a held modifier, and a hold timer that is still pending is the stored
  one, is the only one, and is pending only while the modifier is held and the modal is
  not shown.  The handle itself stays stored after its timer has fired.
\<close>

theorem hold_timer_invariant:
  assumes "w = run env evs initShortcutKeys"
  shows "(modifierHoldTimer w \<noteq> None \<longrightarrow> activeModifier w \<noteq> None)
       \<and> (pendingShow w \<noteq> [] \<longrightarrow>
            activeModifier w \<noteq> None \<and> \<not> modalShown w
            \<and> (\<exists>h. pendingShow w = [h] \<and> modifierHoldTimer w = Some h))"
proof -
  have c: "consistent w"
    unfolding assms by (rule consistent_reachable)
  then have ok: "timersOk w" by (rule consistent_timersOk)
  have "\<exists>h. pendingShow w = [h] \<and> modifierHoldTimer w = Some h" if ne: "pendingShow w \<noteq> []"
  proof -
    from ne obtain h where h: "h \<in> set (pendingShow w)"
      by (cases "pendingShow w") auto
    with ok have stored: "modifierHoldTimer w = Some h"
      by (simp add: timersOk_def list_all_iff)
    with ok have "list_all (\<lambda>x. x = h) (pendingShow w)"
      by (simp add: timersOk_def eq_commute)
    with ne have "pendingShow w = [h]"
      using distinct_pendingShow [OF ok] by (simp add: singleton_handles)
    with stored show ?thesis by simp
  qed
  with c show ?thesis
    by (auto simp add: consistent_def)
qed

section \<open>The activation state machine\<close>

text \<open>
  What closing does reset.  In every reachable state the close button, and an external
  hide that the observer sees, leave the modal marked not shown, no modifier held, no
  handle stored and no hold timer pending; whatever follows without a keydown that
  carries the modifier never shows the overlay.
\<close>

lemma close_resets_state:
  assumes "w = run env evs initShortcutKeys"
    and "list_all (\<lambda>ev. \<not> modifierDown ev) later"
  shows "(modalShown (closeShortcutModal w) = False
          \<and> activeModifier (closeShortcutModal w) = None
          \<and> modifierHoldTimer (closeShortcutModal w) = None
          \<and> pendingShow (closeShortcutModal w) = []
          \<and> overlayShows (run env later (closeShortcutModal w)) = overlayShows w)
       \<and> (modalInDocument w \<and> observerAttached w \<longrightarrow>
            modalShown (step env ExternalHide w) = False
          \<and> activeModifier (step env ExternalHide w) = None
          \<and> modifierHoldTimer (step env ExternalHide w) = None
          \<and> pendingShow (step env ExternalHide w) = []
          \<and> overlayShows (run env later (step env ExternalHide w)) = overlayShows w)"
proof -
  have c: "consistent w"
    unfolding assms(1) by (rule consistent_reachable)
  then have ok: "timersOk w" by (rule consistent_timersOk)
  have button: "pendingShow (closeShortcutModal w) = []"
    using ok by (rule pendingShow_closeShortcutModal)
  have "consistent (closeShortcutModal w)"
    using ok by (rule consistent_closeShortcutModal)
  then have later_button: "overlayShows (run env later (closeShortcutModal w)) = overlayShows w"
    using quiet_run [OF _ button assms(2), of env] by simp
  have hide: "modalShown (step env ExternalHide w) = False
          \<and> activeModifier (step env ExternalHide w) = None
          \<and> modifierHoldTimer (step env ExternalHide w) = None
          \<and> pendingShow (step env ExternalHide w) = []
          \<and> overlayShows (run env later (step env ExternalHide w)) = overlayShows w"
    if obs: "modalInDocument w \<and> observerAttached w"
  proof -
    have eq: "step env ExternalHide w
        = cancelHoldTimer (w\<lparr>modalHidden := True, modalShown := False, activeModifier := None\<rparr>)"
      using obs by (simp add: step_def classChanged_def observerCallback_def)
    have p: "pendingShow (step env ExternalHide w) = []"
      unfolding eq using ok by (simp add: pendingShow_cancelHoldTimer)
    have "consistent (step env ExternalHide w)"
      using c by (rule consistent_step)
    then have "overlayShows (run env later (step env ExternalHide w)) = overlayShows (step env ExternalHide w)"
      using quiet_run [OF _ p assms(2), of env] by simp
    with p show ?thesis
      by (simp add: eq)
  qed
  from button later_button hide show ?thesis
    by simp
qed

text \<open>
  Claim C1, amended.  With the focus in a text-entry element a keydown never shows the
  overlay, never navigates and arms no timer.  The default action is suppressed exactly
  when the event carries the modifier, the modifier was already recorded as held and the
  key matches the catalog: \<^verbatim>\<open>preventDefault\<close> is called before the focus is
  looked at.
\<close>

theorem focused_keydown:
  "overlayShows (fst (keydownHandler env e True w)) = overlayShows w
   \<and> modalShown (fst (keydownHandler env e True w)) = modalShown w
   \<and> location_href (fst (keydownHandler env e True w)) = location_href w
   \<and> set (timers (fst (keydownHandler env e True w))) \<subseteq> set (timers w)
   \<and> snd (keydownHandler env e True w)
       = (altKey e \<and> activeModifier w \<noteq> None
          \<and> findMatch env (shortcutKeysCache w) (eventKey e) \<noteq> None)"
  using timers_cancelHoldTimer [of w]
  by (auto simp add: keydownHandler_def Let_def split: option.splits)





text \<open>
  The handle is still stored, and the modal shown, after the hold timer has fired.
\<close>

theorem hold_timer_invariant_counterexample:
  "modifierHoldTimer (run sampleBrowser [FetchFails, KeyDown altAlone False, TimerFires 1] initShortcutKeys)
     = Some 1
   \<and> modalShown (run sampleBrowser [FetchFails, KeyDown altAlone False, TimerFires 1] initShortcutKeys)"
  by code_simp

text \<open>
  With the focus in a text field and the modifier recorded as held, a matching key has
  its default action suppressed.
\<close>

theorem focused_keydown_counterexample:
  "altKey altD
   \<and> findMatch sampleBrowser (shortcutKeysCache (run sampleBrowser
         [FetchSucceeds [dashboardShortcut], KeyDown altAlone True] initShortcutKeys)) (eventKey altD)
       \<noteq> None
   \<and> snd (keydownHandler sampleBrowser altD True (run sampleBrowser
         [FetchSucceeds [dashboardShortcut], KeyDown altAlone True] initShortcutKeys))"
  by code_simp


text \<open>
  Claim C4, at the input where the code departs from it: the modal has just been shown
  and the observer is not attached yet, and another script hides the modal.  The state
  object is left as it was, and after the key is released a new hold arms no timer.
\<close>

theorem unobserved_hide_keeps_state:
  "modalShown unobservedWindow \<and> \<not> observerAttached unobservedWindow
   \<and> modalHidden (step sampleBrowser ExternalHide unobservedWindow)
   \<and> modalShown (step sampleBrowser ExternalHide unobservedWindow)
   \<and> activeModifier (step sampleBrowser ExternalHide unobservedWindow) = Some ''alt''
   \<and> modifierHoldTimer (step sampleBrowser ExternalHide unobservedWindow) = Some 1
   \<and> pendingShow (run sampleBrowser
        [ExternalHide, TimerFires 2, KeyUp altUp, KeyDown altAlone False] unobservedWindow) = []
   \<and> modalShown (run sampleBrowser
        [ExternalHide, TimerFires 2, KeyUp altUp, KeyDown altAlone False] unobservedWindow)
   \<and> overlayShows (run sampleBrowser
        [ExternalHide, TimerFires 2, KeyUp altUp, KeyDown altAlone False] unobservedWindow) = 1"
  by code_simp

text \<open>
  Claim C7, at the input where the code departs from it: a refresh has filled the
  catalog, then the initial request fails and its callback stores the empty list.
\<close>

theorem failed_fetch_clears_refreshed_catalog:
  "shortcutKeysCache (run sampleBrowser [RefreshSucceeds [dashboardShortcut]] initShortcutKeys)
     = normalizeShortcuts sampleBrowser [dashboardShortcut]
   \<and> normalizeShortcuts sampleBrowser [dashboardShortcut] \<noteq> []
   \<and> shortcutKeysCache (run sampleBrowser [RefreshSucceeds [dashboardShortcut], FetchFails]
        initShortcutKeys) = []"
  by code_simp

theorem hold_timer_invariant_witness:
  "modifierHoldTimer heldWindow \<noteq> None \<and> pendingShow heldWindow \<noteq> []
   \<and> activeModifier heldWindow \<noteq> None \<and> \<not> modalShown heldWindow
   \<and> (\<exists>h. pendingShow heldWindow = [h] \<and> modifierHoldTimer heldWindow = Some h)"
proof -
  have h: "modifierHoldTimer heldWindow \<noteq> None \<and> pendingShow heldWindow \<noteq> []"
    by code_simp
  from hold_timer_invariant [OF heldWindow_def] h show ?thesis
    by blast
qed



end
